theory Spec2Isabelle
  imports Complex_Main
begin

section \<open>Data model (src/types/farm.ts)\<close>

text \<open>
  Counts are the integers that the entry forms obtain with \<^verbatim>\<open>parseInt\<close>; they are
  modelled as \<open>int\<close>, so that a stored collection with over-abortion or over-harvest
  is a well-formed input. Identifiers and location keys are strings. The optional
  presentation fields (\<^verbatim>\<open>imageUri\<close>, \<^verbatim>\<open>notes\<close>) and \<^verbatim>\<open>createdAt\<close> are read by none
  of the computations below and are left out of the records. Field names carry the
  entity as a prefix where two interfaces use the same name.
\<close>

datatype Variety = Red | White | Yellow

text \<open>
  Modelled from the spec: \<^verbatim>\<open>@/utils/dateUtils\<close> (\<^verbatim>\<open>formatDate\<close>, \<^verbatim>\<open>addDays\<close>,
  \<^verbatim>\<open>daysBetween\<close>) is imported by the screens but is not among the source files.
  The spec describes calendar dates without a time component, so a date is a day
  number; \<^verbatim>\<open>formatDate\<close> and \<^verbatim>\<open>new Date\<close> are the identity on day numbers, and
  comparing two formatted dates compares their day numbers.
\<close>

type_synonym date = int

text \<open>
  Modelled from the spec: \<^verbatim>\<open>addDays\<close> of the missing \<^verbatim>\<open>dateUtils\<close>; the spec's
  \<open>expectedDate = bloomDate + maturityPeriodDays\<close>, calendar addition with no timezone
  shift.
\<close>

definition addDays :: "date \<Rightarrow> int \<Rightarrow> date" where
  "addDays d n = d + n"

text \<open>
  Modelled from the spec: \<^verbatim>\<open>daysBetween\<close> of the missing \<^verbatim>\<open>dateUtils\<close>; the spec's
  calendar day difference, which the harvest page negates for a date in the past.
\<close>

definition daysBetween :: "date \<Rightarrow> date \<Rightarrow> int" where
  "daysBetween a b = \<bar>b - a\<bar>"

record BloomEntry =
  bloom_id :: string
  bloom_date :: date
  location :: string
  variety :: Variety
  bloom_count :: int
  maturityPeriodDays :: int

record AbortionEntry =
  abortion_id :: string
  abortionDate :: date
  abortion_bloomEntryId :: string
  abortedCount :: int

record HarvestEntry =
  harvest_id :: string
  harvestDate :: date
  harvest_bloomEntryId :: string
  harvestedCount :: int

record HarvestForecast =
  forecast_id :: string
  bloomEntry :: BloomEntry
  expectedHarvestDate :: date
  expectedCount :: int
  totalAborted :: int
  remainingCount :: int
  isReadyToday :: bool
  daysUntilHarvest :: int

datatype LocationType = Greenhouse | Trellis | DoublePole

datatype Zone = North | South

record FarmLocation =
  loc_id :: string
  loc_type :: LocationType
  loc_zone :: Zone
  loc_name :: string

section \<open>Location catalog (src/utils/farmLocations.ts)\<close>

text \<open>The zone literal; \<^verbatim>\<open>zone[0]\<close> is its first character.\<close>

fun zoneString :: "Zone \<Rightarrow> string" where
  "zoneString North = ''North''"
| "zoneString South = ''South''"

definition zones :: "Zone list" where
  "zones = [North, South]"

text \<open>Decimal rendering of a loop counter inside a template literal.\<close>

fun numberToString :: "nat \<Rightarrow> string" where
  "numberToString n =
     (if n < 10 then [char_of (48 + n)]
      else numberToString (n div 10) @ [char_of (48 + n mod 10)])"

declare numberToString.simps [simp del]

text \<open>\<^verbatim>\<open>String.fromCharCode(c)\<close> for the codes used here (65 .. 76).\<close>

definition fromCharCode :: "nat \<Rightarrow> string" where
  "fromCharCode c = [char_of c]"

definition generateGreenhouseLocations :: "FarmLocation list" where
  "generateGreenhouseLocations =
     concat (map (\<lambda>zone.
       concat (map (\<lambda>gh.
         concat (map (\<lambda>row.
           map (\<lambda>pole.
             let poleLetter = fromCharCode (65 + pole) in
             \<lparr> loc_id = [hd (zoneString zone)] @ numberToString gh @ numberToString row @ poleLetter,
               loc_type = Greenhouse,
               loc_zone = zone,
               loc_name = zoneString zone @ '' GH'' @ numberToString gh @ '' Row''
                            @ numberToString row @ '' Pole'' @ poleLetter \<rparr>)
             [0 ..< 12])
           [1 ..< 4]))
         [1 ..< 5]))
       zones)"

definition generateTrellisLocations :: "FarmLocation list" where
  "generateTrellisLocations =
     concat (map (\<lambda>zone.
       concat (map (\<lambda>trellis.
         map (\<lambda>section.
           let sectionLetter = fromCharCode (65 + section) in
           \<lparr> loc_id = [hd (zoneString zone)] @ ''T'' @ numberToString trellis @ sectionLetter,
             loc_type = Trellis,
             loc_zone = zone,
             loc_name = zoneString zone @ '' Trellis '' @ numberToString trellis
                          @ '' Section '' @ sectionLetter \<rparr>)
           [0 ..< 10])
         [1 ..< 5]))
       zones)"

definition positions :: "string list" where
  "positions = [''Upper'', ''Lower'']"

definition generateDoublePoleLocations :: "FarmLocation list" where
  "generateDoublePoleLocations =
     concat (map (\<lambda>zone.
       concat (map (\<lambda>position.
         map (\<lambda>pole.
           \<lparr> loc_id = [hd (zoneString zone)] @ ''DP'' @ [hd position] @ numberToString pole,
             loc_type = DoublePole,
             loc_zone = zone,
             loc_name = zoneString zone @ '' Double Pole '' @ position @ '' ''
                          @ numberToString pole \<rparr>)
           [1 ..< 7])
         positions))
       zones)"

definition getAllFarmLocations :: "FarmLocation list" where
  "getAllFarmLocations =
     generateGreenhouseLocations @ generateTrellisLocations @ generateDoublePoleLocations"

section \<open>Array and Map primitives\<close>

text \<open>
  \<^verbatim>\<open>Array.prototype.sort\<close> with a comparator. The sort is stable, so for a comparator
  that is a total preorder the result does not depend on the engine's algorithm; it is
  modelled as an insertion sort that keeps elements the comparator does not separate in
  their input order.
\<close>

fun insertSorted :: "('a \<Rightarrow> 'a \<Rightarrow> 'r::linordered_idom) \<Rightarrow> 'a \<Rightarrow> 'a list \<Rightarrow> 'a list" where
  "insertSorted cmp x [] = [x]"
| "insertSorted cmp x (y # ys) =
     (if cmp x y \<le> 0 then x # y # ys else y # insertSorted cmp x ys)"

definition arraySort :: "('a \<Rightarrow> 'a \<Rightarrow> 'r::linordered_idom) \<Rightarrow> 'a list \<Rightarrow> 'a list" where
  "arraySort cmp xs = foldr (insertSorted cmp) xs []"

text \<open>
  A JavaScript \<^verbatim>\<open>Map\<close> iterates in the order in which its keys were first inserted,
  and \<^verbatim>\<open>set\<close> on a present key replaces the value in place: an association list.
\<close>

definition mapGet :: "('k \<times> 'v) list \<Rightarrow> 'k \<Rightarrow> 'v option" where
  "mapGet m k = map_of m k"

fun mapSet :: "'k \<Rightarrow> 'v \<Rightarrow> ('k \<times> 'v) list \<Rightarrow> ('k \<times> 'v) list" where
  "mapSet k v [] = [(k, v)]"
| "mapSet k v (p # ps) = (if fst p = k then (k, v) # ps else p # mapSet k v ps)"

section \<open>Harvest page (src/app/(tabs)/harvest.tsx)\<close>

text \<open>
  The callback of \<^verbatim>\<open>bloomEntries.map\<close> in \<^verbatim>\<open>loadHarvestData\<close>: the per-bloom
  ledger and forecast. Each \<^verbatim>\<open>reduce\<close> is a left fold from 0.
\<close>

definition toForecast ::
  "date \<Rightarrow> AbortionEntry list \<Rightarrow> HarvestEntry list \<Rightarrow> BloomEntry \<Rightarrow> HarvestForecast" where
  "toForecast today abortionEntries harvestEntries bloom =
     (let expectedHarvestDate' = addDays (bloom_date bloom) (maturityPeriodDays bloom);
          totalAborted' =
            foldl (\<lambda>sum abortion. sum + abortedCount abortion) 0
              (filter (\<lambda>abortion. abortion_bloomEntryId abortion = bloom_id bloom) abortionEntries);
          totalHarvested' =
            foldl (\<lambda>sum harvest. sum + harvestedCount harvest) 0
              (filter (\<lambda>harvest. harvest_bloomEntryId harvest = bloom_id bloom) harvestEntries);
          remainingCount' = bloom_count bloom - totalAborted' - totalHarvested';
          daysUntilHarvest' = daysBetween today expectedHarvestDate';
          isReadyToday' = (expectedHarvestDate' = today)
      in \<lparr> forecast_id = bloom_id bloom,
           bloomEntry = bloom,
           expectedHarvestDate = expectedHarvestDate',
           expectedCount = bloom_count bloom,
           totalAborted = totalAborted',
           remainingCount = remainingCount',
           isReadyToday = isReadyToday',
           daysUntilHarvest =
             (if expectedHarvestDate' \<ge> today then daysUntilHarvest' else - daysUntilHarvest') \<rparr>)"

text \<open>The comparator passed to \<^verbatim>\<open>sort\<close>: ready today first, then by days until harvest.\<close>

definition compareForecasts :: "HarvestForecast \<Rightarrow> HarvestForecast \<Rightarrow> int" where
  "compareForecasts a b =
     (if isReadyToday a \<and> \<not> isReadyToday b then - 1
      else if \<not> isReadyToday a \<and> isReadyToday b then 1
      else daysUntilHarvest a - daysUntilHarvest b)"

definition loadHarvestData ::
  "date \<Rightarrow> BloomEntry list \<Rightarrow> AbortionEntry list \<Rightarrow> HarvestEntry list \<Rightarrow> HarvestForecast list" where
  "loadHarvestData today bloomEntries abortionEntries harvestEntries =
     arraySort compareForecasts
       (filter (\<lambda>forecast. remainingCount forecast > 0)
          (map (toForecast today abortionEntries harvestEntries) bloomEntries))"

section \<open>Entry workflows (abortion.tsx, harvest.tsx, storage.ts)\<close>

datatype validationError =
    NoBloomSelected
  | InvalidCount
  | ExceedsRemaining int

text \<open>\<^verbatim>\<open>saveAbortionEntry\<close> and \<^verbatim>\<open>saveHarvestEntry\<close> append to the stored collection.\<close>

definition saveAbortionEntry :: "AbortionEntry \<Rightarrow> AbortionEntry list \<Rightarrow> AbortionEntry list" where
  "saveAbortionEntry entry existingEntries = existingEntries @ [entry]"

definition saveHarvestEntry :: "HarvestEntry \<Rightarrow> HarvestEntry list \<Rightarrow> HarvestEntry list" where
  "saveHarvestEntry entry existingEntries = existingEntries @ [entry]"

text \<open>
  \<^verbatim>\<open>loadBloomEntries\<close> of the abortion page: each bloom with the remaining count the page
  shows and validates against.
\<close>

record BloomWithRemaining =
  selected_bloom :: BloomEntry
  selected_remainingCount :: int

definition loadBloomEntries :: "BloomEntry list \<Rightarrow> AbortionEntry list \<Rightarrow> BloomWithRemaining list" where
  "loadBloomEntries blooms abortions =
     filter (\<lambda>bloom. selected_remainingCount bloom > 0)
       (map (\<lambda>bloom.
          let totalAborted' =
                foldl (\<lambda>sum abortion. sum + abortedCount abortion) 0
                  (filter (\<lambda>abortion. abortion_bloomEntryId abortion = bloom_id bloom) abortions)
          in \<lparr> selected_bloom = bloom,
               selected_remainingCount = bloom_count bloom - totalAborted' \<rparr>)
          blooms)"

text \<open>
  \<^verbatim>\<open>handleSave\<close> of the abortion page. \<open>countNum\<close> is the result of \<^verbatim>\<open>parseInt\<close>
  (\<open>None\<close> for \<^verbatim>\<open>NaN\<close>); \<open>newId\<close> stands for \<^verbatim>\<open>Date.now().toString()\<close>. The result
  is the validation error shown to the user, or the stored abortion collection after
  the save.
\<close>

definition handleSave ::
  "BloomWithRemaining option \<Rightarrow> int option \<Rightarrow> string \<Rightarrow> date \<Rightarrow> AbortionEntry list
     \<Rightarrow> validationError + AbortionEntry list" where
  "handleSave selectedBloom countNum newId abortionDate' stored =
     (case selectedBloom of
        None \<Rightarrow> Inl NoBloomSelected
      | Some sel \<Rightarrow>
          (case countNum of
             None \<Rightarrow> Inl InvalidCount
           | Some n \<Rightarrow>
               if n \<le> 0 then Inl InvalidCount
               else if n > selected_remainingCount sel
                 then Inl (ExceedsRemaining (selected_remainingCount sel))
               else Inr (saveAbortionEntry
                           \<lparr> abortion_id = newId,
                             abortionDate = abortionDate',
                             abortion_bloomEntryId = bloom_id (selected_bloom sel),
                             abortedCount = n \<rparr>
                           stored)))"

text \<open>\<^verbatim>\<open>handleSaveHarvest\<close> of the harvest page, against the loaded forecasts.\<close>

definition handleSaveHarvest ::
  "HarvestForecast list \<Rightarrow> BloomEntry option \<Rightarrow> int option \<Rightarrow> string \<Rightarrow> date \<Rightarrow> HarvestEntry list
     \<Rightarrow> validationError + HarvestEntry list" where
  "handleSaveHarvest harvestForecasts selectedBloom countNum newId harvestDate' stored =
     (case selectedBloom of
        None \<Rightarrow> Inl NoBloomSelected
      | Some sel \<Rightarrow>
          (case countNum of
             None \<Rightarrow> Inl InvalidCount
           | Some n \<Rightarrow>
               if n \<le> 0 then Inl InvalidCount
               else
                 (case find (\<lambda>f. forecast_id f = bloom_id sel) harvestForecasts of
                    Some forecast \<Rightarrow>
                      if n > remainingCount forecast
                        then Inl (ExceedsRemaining (remainingCount forecast))
                      else Inr (saveHarvestEntry
                                  \<lparr> harvest_id = newId, harvestDate = harvestDate',
                                    harvest_bloomEntryId = bloom_id sel, harvestedCount = n \<rparr>
                                  stored)
                  | None \<Rightarrow>
                      Inr (saveHarvestEntry
                             \<lparr> harvest_id = newId, harvestDate = harvestDate',
                               harvest_bloomEntryId = bloom_id sel, harvestedCount = n \<rparr>
                             stored))))"

section \<open>Dashboard (src/app/(tabs)/index.tsx)\<close>

text \<open>
  The storage functions that \<^verbatim>\<open>index.tsx\<close> imports from \<^verbatim>\<open>@/utils/storage\<close> (line 8).
  \<^verbatim>\<open>getHarvestEntries\<close> is exported by \<^verbatim>\<open>storage.ts\<close> but is not in this list.
\<close>

definition indexImports :: "string list" where
  "indexImports = [''getBloomEntries'', ''getAbortionEntries'', ''getSettings'']"

text \<open>
  Calling a function by its name inside a module: a name that the module neither
  imports nor declares raises \<^verbatim>\<open>ReferenceError\<close> when the call is evaluated.
\<close>

datatype jsError = ReferenceError string

definition callImported :: "string list \<Rightarrow> string \<Rightarrow> 'a \<Rightarrow> jsError + 'a" where
  "callImported scope name result =
     (if name \<in> set scope then Inr result else Inl (ReferenceError name))"

text \<open>
  The \<^verbatim>\<open>stats\<close> state of the page. Its initial value (lines 14 to 19) has no
  \<^verbatim>\<open>readyToHarvestToday\<close> field, so that field is \<^verbatim>\<open>undefined\<close> (\<open>None\<close>) until
  \<^verbatim>\<open>setStats\<close> runs.
\<close>

record DashboardStats =
  todayBlooms :: int
  todayAbortions :: int
  upcomingHarvests :: int
  totalActiveBlooms :: int
  readyToHarvestToday :: "int option"

definition initialStats :: DashboardStats where
  "initialStats =
     \<lparr> todayBlooms = 0, todayAbortions = 0, upcomingHarvests = 0, totalActiveBlooms = 0,
       readyToHarvestToday = None \<rparr>"

record UpcomingItem =
  upcoming_bloom :: BloomEntry
  upcoming_harvestDate :: date
  upcoming_remainingCount :: int

text \<open>
  \<^verbatim>\<open>loadDashboardData\<close>, as a function from the stored collections and the current
  \<^verbatim>\<open>stats\<close> state to the \<^verbatim>\<open>stats\<close> state after the call. The body is one \<^verbatim>\<open>try\<close>
  block: the elements of the array passed to \<^verbatim>\<open>Promise.all\<close> are evaluated in order
  (line 29 calls \<^verbatim>\<open>getHarvestEntries\<close>), the three names
  \<^verbatim>\<open>[bloomEntries, abortionEntries, settings]\<close> are bound to the first three results,
  the counters are computed and \<^verbatim>\<open>setStats\<close> stores them. An exception anywhere in
  the block goes to the \<^verbatim>\<open>catch\<close>, which logs it and leaves the state as it was.
  Modelled from the spec: in the \<^verbatim>\<open>upcoming\<close> filter \<^verbatim>\<open>new Date()\<close> is the day number
  \<open>today\<close> and \<^verbatim>\<open>Date\<close> objects compare as day numbers. The setters that follow
  \<^verbatim>\<open>setStats\<close> in the same block write state that is not modelled.
\<close>

definition loadDashboardData ::
  "date \<Rightarrow> BloomEntry list \<Rightarrow> AbortionEntry list \<Rightarrow> HarvestEntry list \<Rightarrow> DashboardStats
     \<Rightarrow> DashboardStats" where
  "loadDashboardData today storedBlooms storedAbortions storedHarvests stats =
     (case callImported indexImports ''getBloomEntries'' storedBlooms of
        Inl error \<Rightarrow> stats
      | Inr bloomEntries \<Rightarrow>
     (case callImported indexImports ''getAbortionEntries'' storedAbortions of
        Inl error \<Rightarrow> stats
      | Inr abortionEntries \<Rightarrow>
     (case callImported indexImports ''getHarvestEntries'' storedHarvests of
        Inl error \<Rightarrow> stats
      | Inr settings \<Rightarrow>
     (case callImported indexImports ''getSettings'' () of
        Inl error \<Rightarrow> stats
      | Inr unused \<Rightarrow>
          (let todayBlooms' =
                 int (length (filter (\<lambda>entry. bloom_date entry = today) bloomEntries));
               todayAbortions' =
                 int (length (filter (\<lambda>entry. abortionDate entry = today) abortionEntries));
               readyToHarvestToday' =
                 int (length (filter (\<lambda>bloom.
                        let harvestDate' = addDays (bloom_date bloom) (maturityPeriodDays bloom)
                        in harvestDate' = today) bloomEntries));
               upcoming =
                 arraySort (\<lambda>a b. upcoming_harvestDate a - upcoming_harvestDate b)
                   (filter (\<lambda>item.
                        let harvestDate' = upcoming_harvestDate item;
                            nextWeek = addDays today 7
                        in harvestDate' \<le> nextWeek \<and> harvestDate' \<ge> today
                           \<and> upcoming_remainingCount item > 0)
                      (map (\<lambda>bloom.
                          let harvestDate' = addDays (bloom_date bloom) (maturityPeriodDays bloom);
                              totalAborted' =
                                foldl (\<lambda>sum abortion. sum + abortedCount abortion) 0
                                  (filter (\<lambda>abortion.
                                       abortion_bloomEntryId abortion = bloom_id bloom)
                                     abortionEntries)
                          in \<lparr> upcoming_bloom = bloom,
                               upcoming_harvestDate = harvestDate',
                               upcoming_remainingCount = bloom_count bloom - totalAborted' \<rparr>)
                         bloomEntries));
               upcomingHarvests' = int (length upcoming);
               totalActiveBlooms' =
                 foldl (\<lambda>sum bloom.
                          let totalAborted' =
                                foldl (\<lambda>sum abortion. sum + abortedCount abortion) 0
                                  (filter (\<lambda>abortion.
                                       abortion_bloomEntryId abortion = bloom_id bloom)
                                     abortionEntries)
                          in sum + (bloom_count bloom - totalAborted'))
                   0 bloomEntries
           in \<lparr> todayBlooms = todayBlooms',
                todayAbortions = todayAbortions',
                upcomingHarvests = upcomingHarvests',
                totalActiveBlooms = totalActiveBlooms',
                readyToHarvestToday = Some readyToHarvestToday' \<rparr>)))))"

section \<open>Abortion analytics (src/app/(tabs)/analytics.tsx)\<close>

record Stats =
  stats_total :: int
  stats_aborted :: int

text \<open>
  The two aggregations run the same two loops, keyed by \<^verbatim>\<open>bloom.location\<close> and by
  \<^verbatim>\<open>bloom.variety\<close>; \<open>key\<close> is that field. \<^verbatim>\<open>get(k) || {total: 0, aborted: 0}\<close> is
  \<open>currentStats\<close>.
\<close>

definition currentStats :: "('k \<times> Stats) list \<Rightarrow> 'k \<Rightarrow> Stats" where
  "currentStats m k =
     (case mapGet m k of Some current \<Rightarrow> current
      | None \<Rightarrow> \<lparr> stats_total = 0, stats_aborted = 0 \<rparr>)"

definition addBloom :: "(BloomEntry \<Rightarrow> 'k) \<Rightarrow> ('k \<times> Stats) list \<Rightarrow> BloomEntry \<Rightarrow> ('k \<times> Stats) list" where
  "addBloom key m bloom =
     (let current = currentStats m (key bloom)
      in mapSet (key bloom) (current\<lparr>stats_total := stats_total current + bloom_count bloom\<rparr>) m)"

definition addAbortion ::
  "(BloomEntry \<Rightarrow> 'k) \<Rightarrow> BloomEntry list \<Rightarrow> ('k \<times> Stats) list \<Rightarrow> AbortionEntry \<Rightarrow> ('k \<times> Stats) list" where
  "addAbortion key bloomEntries m abortion =
     (case find (\<lambda>b. bloom_id b = abortion_bloomEntryId abortion) bloomEntries of
        Some bloom \<Rightarrow>
          (let current = currentStats m (key bloom)
           in mapSet (key bloom)
                (current\<lparr>stats_aborted := stats_aborted current + abortedCount abortion\<rparr>) m)
      | None \<Rightarrow> m)"

definition groupStats ::
  "(BloomEntry \<Rightarrow> 'k) \<Rightarrow> BloomEntry list \<Rightarrow> AbortionEntry list \<Rightarrow> ('k \<times> Stats) list" where
  "groupStats key bloomEntries abortionEntries =
     foldl (addAbortion key bloomEntries) (foldl (addBloom key) [] bloomEntries) abortionEntries"

definition locationStats :: "BloomEntry list \<Rightarrow> AbortionEntry list \<Rightarrow> (string \<times> Stats) list" where
  "locationStats = groupStats location"

definition varietyStats :: "BloomEntry list \<Rightarrow> AbortionEntry list \<Rightarrow> (Variety \<times> Stats) list" where
  "varietyStats = groupStats variety"

text \<open>
  \<^verbatim>\<open>stats.total > 0 ? (stats.aborted / stats.total) * 100 : 0\<close>. The source computes
  the quotient in double precision; the model computes it exactly, as a rational.
\<close>

definition abortionRate :: "Stats \<Rightarrow> rat" where
  "abortionRate stats =
     (if stats_total stats > 0
      then (of_int (stats_aborted stats) / of_int (stats_total stats)) * 100
      else 0)"

record AbortionRateData =
  rate_location :: string
  rate :: rat
  rate_total :: int
  rate_aborted :: int

record ChartData =
  chart_x :: Variety
  chart_y :: rat

definition locationRates :: "BloomEntry list \<Rightarrow> AbortionEntry list \<Rightarrow> AbortionRateData list" where
  "locationRates bloomEntries abortionEntries =
     take 10
       (arraySort (\<lambda>a b. rate b - rate a)
          (filter (\<lambda>item. rate_total item > 0)
             (map (\<lambda>(location', stats).
                     \<lparr> rate_location = location',
                       rate = abortionRate stats,
                       rate_total = stats_total stats,
                       rate_aborted = stats_aborted stats \<rparr>)
                (locationStats bloomEntries abortionEntries))))"

definition varietyRates :: "BloomEntry list \<Rightarrow> AbortionEntry list \<Rightarrow> ChartData list" where
  "varietyRates bloomEntries abortionEntries =
     take 10
       (arraySort (\<lambda>a b. chart_y b - chart_y a)
          (filter (\<lambda>item. chart_y item > 0)
             (map (\<lambda>(variety', stats). \<lparr> chart_x = variety', chart_y = abortionRate stats \<rparr>)
                (varietyStats bloomEntries abortionEntries))))"

section \<open>The yield ledger as the specification words it\<close>

text \<open>
  The specification's ledger, for comparison with the code:
  \<open>remaining(b) = max(0, b.count - totalAborted(b) - totalHarvested(b))\<close>.
\<close>

definition spec_totalAborted :: "AbortionEntry list \<Rightarrow> BloomEntry \<Rightarrow> int" where
  "spec_totalAborted abortions b =
     (\<Sum>a \<leftarrow> filter (\<lambda>a. abortion_bloomEntryId a = bloom_id b) abortions. abortedCount a)"

definition spec_totalHarvested :: "HarvestEntry list \<Rightarrow> BloomEntry \<Rightarrow> int" where
  "spec_totalHarvested harvests b =
     (\<Sum>h \<leftarrow> filter (\<lambda>h. harvest_bloomEntryId h = bloom_id b) harvests. harvestedCount h)"

definition spec_remaining :: "AbortionEntry list \<Rightarrow> HarvestEntry list \<Rightarrow> BloomEntry \<Rightarrow> int" where
  "spec_remaining abortions harvests b =
     max 0 (bloom_count b - spec_totalAborted abortions b - spec_totalHarvested harvests b)"

text \<open>
  The groups of the abortion analytics, for comparison with the code: the total of a
  group is the sum of the counts of its blooms, and its aborted count is the sum over the
  abortion entries whose bloom (the first bloom with the referenced identifier) lies in
  the group.
\<close>

definition groupTotal :: "(BloomEntry \<Rightarrow> 'k) \<Rightarrow> BloomEntry list \<Rightarrow> 'k \<Rightarrow> int" where
  "groupTotal key blooms k = (\<Sum>b \<leftarrow> filter (\<lambda>b. key b = k) blooms. bloom_count b)"

definition abortionKey :: "(BloomEntry \<Rightarrow> 'k) \<Rightarrow> BloomEntry list \<Rightarrow> AbortionEntry \<Rightarrow> 'k option" where
  "abortionKey key blooms a =
     map_option key (find (\<lambda>b. bloom_id b = abortion_bloomEntryId a) blooms)"

definition groupAborted :: "(BloomEntry \<Rightarrow> 'k) \<Rightarrow> BloomEntry list \<Rightarrow> AbortionEntry list \<Rightarrow> 'k \<Rightarrow> int" where
  "groupAborted key blooms abortions k =
     (\<Sum>a \<leftarrow> filter (\<lambda>a. abortionKey key blooms a = Some k) abortions. abortedCount a)"


text \<open>
  The invariant of the two loops that build a statistics map: after the blooms
  \<open>blooms\<close> and the abortions \<open>abortions\<close> have been processed, the keys are distinct,
  they are the keys of the blooms, and each key carries the sums of its group.\<close>

definition groupsOf ::
  "(BloomEntry \<Rightarrow> 'k) \<Rightarrow> BloomEntry list \<Rightarrow> BloomEntry list \<Rightarrow> AbortionEntry list \<Rightarrow> ('k \<times> Stats) list \<Rightarrow> bool" where
  "groupsOf key allBlooms blooms abortions m \<longleftrightarrow>
     distinct (map fst m) \<and> fst ` set m = key ` set blooms \<and>
     (\<forall>k \<in> key ` set blooms.
        map_of m k = Some \<lparr> stats_total = groupTotal key blooms k,
                            stats_aborted = groupAborted key allBlooms abortions k \<rparr>)"

section \<open>The location catalog: size and unique identifiers\<close>

lemma numberToString_digit: "n < 10 \<Longrightarrow> numberToString n = [char_of (48 + n)]"
  by (simp add: numberToString.simps)

lemma length_greenhouse: "length generateGreenhouseLocations = 288"
  by (simp add: generateGreenhouseLocations_def zones_def length_concat comp_def sum_list_triv)

lemma length_trellis: "length generateTrellisLocations = 80"
  by (simp add: generateTrellisLocations_def zones_def length_concat comp_def sum_list_triv)

lemma length_doublePole: "length generateDoublePoleLocations = 24"
  by (simp add: generateDoublePoleLocations_def zones_def positions_def length_concat comp_def sum_list_triv)

lemma greenhouse_ids:
  "map loc_id generateGreenhouseLocations =
     map (\<lambda>(zone, gh, row, pole).
            [hd (zoneString zone)] @ numberToString gh @ numberToString row @ fromCharCode (65 + pole))
         (List.product zones (List.product [1 ..< 5] (List.product [1 ..< 4] [0 ..< 12])))"
  unfolding generateGreenhouseLocations_def
  by (simp add: product_concat_map map_concat comp_def Let_def)

lemma trellis_ids:
  "map loc_id generateTrellisLocations =
     map (\<lambda>(zone, trellis, section).
            [hd (zoneString zone)] @ ''T'' @ numberToString trellis @ fromCharCode (65 + section))
         (List.product zones (List.product [1 ..< 5] [0 ..< 10]))"
  unfolding generateTrellisLocations_def
  by (simp add: product_concat_map map_concat comp_def Let_def)

lemma doublePole_ids:
  "map loc_id generateDoublePoleLocations =
     map (\<lambda>(zone, position, pole).
            [hd (zoneString zone)] @ ''DP'' @ [hd position] @ numberToString pole)
         (List.product zones (List.product positions [1 ..< 7]))"
  unfolding generateDoublePoleLocations_def
  by (simp add: product_concat_map map_concat comp_def Let_def)

lemma zone_char_inj: "hd (zoneString z) = hd (zoneString z') \<longleftrightarrow> z = z'"
  by (cases z; cases z') simp_all

lemma char_of_inj_small:
  "(m::nat) < 256 \<Longrightarrow> n < 256 \<Longrightarrow> char_of m = (char_of n :: char) \<longleftrightarrow> m = n"
  by (simp add: char_of_eq_iff take_bit_eq_mod)

lemma distinct_greenhouse_ids: "distinct (map loc_id generateGreenhouseLocations)"
  unfolding greenhouse_ids
  apply (rule distinct_map [THEN iffD2])
  apply (rule conjI)
   apply (intro distinct_product; simp add: zones_def)
  apply (auto simp: inj_on_def numberToString_digit fromCharCode_def zone_char_inj char_of_inj_small)
  done

lemma distinct_trellis_ids: "distinct (map loc_id generateTrellisLocations)"
  unfolding trellis_ids
  apply (rule distinct_map [THEN iffD2])
  apply (rule conjI)
   apply (intro distinct_product; simp add: zones_def)
  apply (auto simp: inj_on_def numberToString_digit fromCharCode_def zone_char_inj char_of_inj_small)
  done

lemma distinct_doublePole_ids: "distinct (map loc_id generateDoublePoleLocations)"
  unfolding doublePole_ids
  apply (rule distinct_map [THEN iffD2])
  apply (rule conjI)
   apply (intro distinct_product; simp add: zones_def positions_def)
  apply (auto simp: inj_on_def numberToString_digit fromCharCode_def zone_char_inj char_of_inj_small positions_def)
  done

lemma digit_not_T:
  assumes "(n::nat) < 10"
  shows "char_of (48 + n) \<noteq> CHR ''T''"
proof
  assume "char_of (48 + n) = CHR ''T''"
  then have "(of_char (char_of (48 + n) :: char) :: nat) = of_char CHR ''T''"
    by simp
  with assms show False
    by simp
qed

lemma greenhouse_id_shape:
  "i \<in> set (map loc_id generateGreenhouseLocations) \<Longrightarrow> length i = 4 \<and> i ! 1 \<noteq> CHR ''T''"
  unfolding greenhouse_ids
  by (auto simp: numberToString_digit fromCharCode_def digit_not_T)

lemma trellis_id_shape:
  "i \<in> set (map loc_id generateTrellisLocations) \<Longrightarrow> length i = 4 \<and> i ! 1 = CHR ''T''"
  unfolding trellis_ids
  by (auto simp: numberToString_digit fromCharCode_def)

lemma doublePole_id_shape:
  "i \<in> set (map loc_id generateDoublePoleLocations) \<Longrightarrow> length i = 5"
  unfolding doublePole_ids
  by (auto simp: numberToString_digit)

lemma greenhouse_types: "l \<in> set generateGreenhouseLocations \<Longrightarrow> loc_type l = Greenhouse"
  by (auto simp: generateGreenhouseLocations_def Let_def)

lemma trellis_types: "l \<in> set generateTrellisLocations \<Longrightarrow> loc_type l = Trellis"
  by (auto simp: generateTrellisLocations_def Let_def)

lemma doublePole_types: "l \<in> set generateDoublePoleLocations \<Longrightarrow> loc_type l = DoublePole"
  by (auto simp: generateDoublePoleLocations_def Let_def)

lemma filter_type_all:
  assumes "\<And>l. l \<in> set ls \<Longrightarrow> loc_type l = t"
  shows "filter (\<lambda>l. loc_type l = t') ls = (if t = t' then ls else [])"
  using assms by (induction ls) auto

lemma catalog_by_type:
  "filter (\<lambda>l. loc_type l = Greenhouse) getAllFarmLocations = generateGreenhouseLocations"
  "filter (\<lambda>l. loc_type l = Trellis) getAllFarmLocations = generateTrellisLocations"
  "filter (\<lambda>l. loc_type l = DoublePole) getAllFarmLocations = generateDoublePoleLocations"
  by (simp_all add: getAllFarmLocations_def
      filter_type_all [of generateGreenhouseLocations Greenhouse, OF greenhouse_types]
      filter_type_all [of generateTrellisLocations Trellis, OF trellis_types]
      filter_type_all [of generateDoublePoleLocations DoublePole, OF doublePole_types])

lemma length_greenhouse_zone:
  "length (filter (\<lambda>l. loc_zone l = z) generateGreenhouseLocations) = 144"
  by (cases z)
    (simp_all add: generateGreenhouseLocations_def zones_def Let_def filter_concat filter_map
      comp_def length_concat sum_list_triv)

lemma length_trellis_zone:
  "length (filter (\<lambda>l. loc_zone l = z) generateTrellisLocations) = 40"
  by (cases z)
    (simp_all add: generateTrellisLocations_def zones_def Let_def filter_concat filter_map
      comp_def length_concat sum_list_triv)

lemma length_doublePole_zone:
  "length (filter (\<lambda>l. loc_zone l = z) generateDoublePoleLocations) = 12"
  by (cases z)
    (simp_all add: generateDoublePoleLocations_def zones_def positions_def Let_def filter_concat
      filter_map comp_def length_concat sum_list_triv)

lemma filter_type_zone:
  "filter (\<lambda>l. loc_type l = t \<and> loc_zone l = z) ls
     = filter (\<lambda>l. loc_zone l = z) (filter (\<lambda>l. loc_type l = t) ls)"
  by (induction ls) auto

text \<open>
  Claim C10. The catalog is a constant of the theory (the generators take no input and
  read no state). It has exactly 392 entries and no two of them share an identifier.
  Of its entries, 288 have type greenhouse, 80 type trellis and 24 type double pole, and
  these are the lists of the three generators; in each zone the catalog has 144
  greenhouse (4 greenhouses of 3 rows of 12 poles), 40 trellis (4 trellises of 10
  sections) and 12 double-pole (2 positions of 6 poles) entries.
\<close>

theorem catalog_size_and_unique_ids:
  "length getAllFarmLocations = 392
   \<and> length generateGreenhouseLocations = 288
   \<and> length generateTrellisLocations = 80
   \<and> length generateDoublePoleLocations = 24
   \<and> distinct (map loc_id getAllFarmLocations)
   \<and> filter (\<lambda>l. loc_type l = Greenhouse) getAllFarmLocations = generateGreenhouseLocations
   \<and> filter (\<lambda>l. loc_type l = Trellis) getAllFarmLocations = generateTrellisLocations
   \<and> filter (\<lambda>l. loc_type l = DoublePole) getAllFarmLocations = generateDoublePoleLocations
   \<and> length (filter (\<lambda>l. loc_type l = Greenhouse) getAllFarmLocations) = 288
   \<and> length (filter (\<lambda>l. loc_type l = Trellis) getAllFarmLocations) = 80
   \<and> length (filter (\<lambda>l. loc_type l = DoublePole) getAllFarmLocations) = 24
   \<and> length (filter (\<lambda>l. loc_type l = Greenhouse \<and> loc_zone l = z) getAllFarmLocations) = 144
   \<and> length (filter (\<lambda>l. loc_type l = Trellis \<and> loc_zone l = z) getAllFarmLocations) = 40
   \<and> length (filter (\<lambda>l. loc_type l = DoublePole \<and> loc_zone l = z) getAllFarmLocations) = 12"
proof -
  have disj1: "set (map loc_id generateGreenhouseLocations) \<inter> set (map loc_id generateTrellisLocations) = {}"
    using greenhouse_id_shape trellis_id_shape by blast
  have disj2: "set (map loc_id generateGreenhouseLocations) \<inter> set (map loc_id generateDoublePoleLocations) = {}"
    using greenhouse_id_shape doublePole_id_shape by fastforce
  have disj3: "set (map loc_id generateTrellisLocations) \<inter> set (map loc_id generateDoublePoleLocations) = {}"
    using trellis_id_shape doublePole_id_shape by fastforce
  have d: "distinct (map loc_id getAllFarmLocations)"
    unfolding getAllFarmLocations_def map_append distinct_append
    using distinct_greenhouse_ids distinct_trellis_ids distinct_doublePole_ids disj1 disj2 disj3
    by (simp add: Int_Un_distrib)
  have n: "length getAllFarmLocations = 392"
    by (simp add: getAllFarmLocations_def length_greenhouse length_trellis length_doublePole)
  have z: "length (filter (\<lambda>l. loc_type l = Greenhouse \<and> loc_zone l = z) getAllFarmLocations) = 144"
    "length (filter (\<lambda>l. loc_type l = Trellis \<and> loc_zone l = z) getAllFarmLocations) = 40"
    "length (filter (\<lambda>l. loc_type l = DoublePole \<and> loc_zone l = z) getAllFarmLocations) = 12"
    by (simp_all only: filter_type_zone catalog_by_type
        length_greenhouse_zone length_trellis_zone length_doublePole_zone)
  from d n z show ?thesis
    by (simp only: catalog_by_type length_greenhouse length_trellis length_doublePole simp_thms)
qed

section \<open>Sorting with a comparator\<close>

lemma set_insertSorted: "set (insertSorted cmp x ys) = insert x (set ys)"
  by (induction ys) auto

lemma set_arraySort: "set (arraySort cmp xs) = set xs"
  by (induction xs) (simp_all add: arraySort_def set_insertSorted)



lemma sorted_insertSorted:
  assumes trans: "\<And>a b c. cmp a b \<le> 0 \<Longrightarrow> cmp b c \<le> 0 \<Longrightarrow> cmp a c \<le> 0"
    and total: "\<And>a b. \<not> cmp a b \<le> 0 \<Longrightarrow> cmp b a \<le> 0"
    and sorted: "sorted_wrt (\<lambda>a b. cmp a b \<le> 0) ys"
  shows "sorted_wrt (\<lambda>a b. cmp a b \<le> 0) (insertSorted cmp x ys)"
  using sorted
proof (induction ys)
  case Nil
  then show ?case by simp
next
  case (Cons y ys)
  show ?case
  proof (cases "cmp x y \<le> 0")
    case True
    then have "\<forall>z \<in> set ys. cmp x z \<le> 0"
      using Cons.prems trans by auto
    with True Cons.prems show ?thesis by simp
  next
    case False
    then have "cmp y x \<le> 0" by (rule total)
    with False Cons show ?thesis
      by (simp add: set_insertSorted)
  qed
qed

lemma sorted_arraySort:
  assumes trans: "\<And>a b c. cmp a b \<le> 0 \<Longrightarrow> cmp b c \<le> 0 \<Longrightarrow> cmp a c \<le> 0"
    and total: "\<And>a b. \<not> cmp a b \<le> 0 \<Longrightarrow> cmp b a \<le> 0"
  shows "sorted_wrt (\<lambda>a b. cmp a b \<le> 0) (arraySort cmp xs)"
proof (induction xs)
  case Nil
  then show ?case by (simp add: arraySort_def)
next
  case (Cons x xs)
  have "arraySort cmp (x # xs) = insertSorted cmp x (arraySort cmp xs)"
    by (simp add: arraySort_def)
  with Cons show ?case
    using sorted_insertSorted [of cmp, OF trans total] by simp
qed

section \<open>The harvest page: ledger, filter and order\<close>

lemma foldl_plus_sum_list:
  "foldl (\<lambda>sum e. sum + f e) (z::int) xs = z + sum_list (map f xs)"
  by (induction xs arbitrary: z) simp_all

lemma compareForecasts_le:
  "compareForecasts a b \<le> 0 \<longleftrightarrow>
     (isReadyToday a \<and> \<not> isReadyToday b)
     \<or> (isReadyToday a = isReadyToday b \<and> daysUntilHarvest a \<le> daysUntilHarvest b)"
  by (auto simp: compareForecasts_def)

lemma remainingCount_toForecast:
  "remainingCount (toForecast today abortions harvests b) =
     bloom_count b - spec_totalAborted abortions b - spec_totalHarvested harvests b"
  by (simp add: toForecast_def Let_def foldl_plus_sum_list spec_totalAborted_def spec_totalHarvested_def)

lemma bloomEntry_toForecast: "bloomEntry (toForecast today abortions harvests b) = b"
  by (simp add: toForecast_def Let_def)

lemma forecast_id_toForecast: "forecast_id (toForecast today abortions harvests b) = bloom_id b"
  by (simp add: toForecast_def Let_def)

lemma set_loadHarvestData:
  "set (loadHarvestData today blooms abortions harvests) =
     toForecast today abortions harvests `
       {b \<in> set blooms. bloom_count b - spec_totalAborted abortions b - spec_totalHarvested harvests b > 0}"
  by (auto simp: loadHarvestData_def set_arraySort remainingCount_toForecast)

text \<open>
  Claim C6. In the forecast list no forecast that is not ready today stands before one
  that is, and two forecasts with the same \<open>isReadyToday\<close> stand in ascending order of
  \<open>daysUntilHarvest\<close>.
\<close>

theorem forecasts_ordered_by_policy:
  "sorted_wrt
     (\<lambda>a b. (isReadyToday b \<longrightarrow> isReadyToday a)
           \<and> (isReadyToday a = isReadyToday b \<longrightarrow> daysUntilHarvest a \<le> daysUntilHarvest b))
     (loadHarvestData today blooms abortions harvests)"
proof -
  have "sorted_wrt (\<lambda>a b. compareForecasts a b \<le> 0)
          (loadHarvestData today blooms abortions harvests)"
    unfolding loadHarvestData_def
    by (rule sorted_arraySort) (auto simp: compareForecasts_le)
  then show ?thesis
    by (rule sorted_wrt_mono_rel [rotated]) (auto simp: compareForecasts_le)
qed

text \<open>
  Claim C7. A bloom whose count minus total aborted minus total harvested is zero or
  negative (so that the specification's remaining count is 0) is the bloom of no
  forecast in the list; when it belongs to a bloom collection with distinct
  identifiers, no forecast carries its identifier either.
\<close>

theorem exhausted_bloom_has_no_forecast:
  assumes "bloom_count b - spec_totalAborted abortions b - spec_totalHarvested harvests b \<le> 0"
  shows "spec_remaining abortions harvests b = 0
         \<and> (\<forall>f \<in> set (loadHarvestData today blooms abortions harvests). bloomEntry f \<noteq> b)
         \<and> (b \<in> set blooms \<and> distinct (map bloom_id blooms) \<longrightarrow>
              (\<forall>f \<in> set (loadHarvestData today blooms abortions harvests).
                 forecast_id f \<noteq> bloom_id b))"
proof (intro conjI ballI impI)
  show "spec_remaining abortions harvests b = 0"
    using assms by (simp add: spec_remaining_def)
next
  fix f assume "f \<in> set (loadHarvestData today blooms abortions harvests)"
  then show "bloomEntry f \<noteq> b"
    using assms by (auto simp: set_loadHarvestData bloomEntry_toForecast)
next
  fix f
  assume b: "b \<in> set blooms \<and> distinct (map bloom_id blooms)"
    and "f \<in> set (loadHarvestData today blooms abortions harvests)"
  then obtain b' where b': "b' \<in> set blooms" "f = toForecast today abortions harvests b'"
    "bloom_count b' - spec_totalAborted abortions b' - spec_totalHarvested harvests b' > 0"
    by (auto simp: set_loadHarvestData)
  with assms have "b' \<noteq> b" by auto
  with b b' have "bloom_id b' \<noteq> bloom_id b"
    by (meson distinct_map inj_on_def)
  with b' show "forecast_id f \<noteq> bloom_id b"
    by (simp add: forecast_id_toForecast)
qed

text \<open>
  Claim C1, as amended. The remaining count that the harvest page computes for a bloom
  is the plain difference count minus total aborted minus total harvested, with no
  clamp; every forecast that reaches the list has a positive remaining count, which
  there coincides with the specification's \<open>max 0\<close> formula.
\<close>

theorem ledger_remaining_unclamped_positive_in_output:
  "remainingCount (toForecast today abortions harvests b) =
     bloom_count b - spec_totalAborted abortions b - spec_totalHarvested harvests b
   \<and> (\<forall>f \<in> set (loadHarvestData today blooms abortions harvests).
        remainingCount f > 0
        \<and> remainingCount f = spec_remaining abortions harvests (bloomEntry f))"
  by (auto simp: remainingCount_toForecast set_loadHarvestData bloomEntry_toForecast spec_remaining_def)

subsection \<open>Concrete runs of the harvest page\<close>

lemmas harvest_eval =
  loadHarvestData_def arraySort_def toForecast_def Let_def addDays_def daysBetween_def
  compareForecasts_def spec_remaining_def spec_totalAborted_def spec_totalHarvested_def

theorem ledger_remaining_negative_counterexample:
  "remainingCount
     (toForecast 30
        [\<lparr>abortion_id = ''a1'', abortionDate = 5, abortion_bloomEntryId = ''b1'', abortedCount = 7\<rparr>]
        []
        \<lparr>bloom_id = ''b1'', bloom_date = 1, location = ''N11A'', variety = Red,
          bloom_count = 5, maturityPeriodDays = 26\<rparr>) = - 2
   \<and> spec_remaining
        [\<lparr>abortion_id = ''a1'', abortionDate = 5, abortion_bloomEntryId = ''b1'', abortedCount = 7\<rparr>]
        []
        \<lparr>bloom_id = ''b1'', bloom_date = 1, location = ''N11A'', variety = Red,
          bloom_count = 5, maturityPeriodDays = 26\<rparr> = 0"
  by (simp add: harvest_eval)

theorem ledger_remaining_unclamped_positive_in_output_witness:
  "loadHarvestData 30
     [\<lparr>bloom_id = ''b1'', bloom_date = 1, location = ''N11A'', variety = Red,
        bloom_count = 10, maturityPeriodDays = 26\<rparr>]
     [\<lparr>abortion_id = ''a1'', abortionDate = 5, abortion_bloomEntryId = ''b1'', abortedCount = 3\<rparr>]
     []
   = [\<lparr>forecast_id = ''b1'',
        bloomEntry = \<lparr>bloom_id = ''b1'', bloom_date = 1, location = ''N11A'', variety = Red,
                       bloom_count = 10, maturityPeriodDays = 26\<rparr>,
        expectedHarvestDate = 27, expectedCount = 10, totalAborted = 3, remainingCount = 7,
        isReadyToday = False, daysUntilHarvest = - 3\<rparr>]
   \<and> spec_remaining
        [\<lparr>abortion_id = ''a1'', abortionDate = 5, abortion_bloomEntryId = ''b1'', abortedCount = 3\<rparr>]
        []
        \<lparr>bloom_id = ''b1'', bloom_date = 1, location = ''N11A'', variety = Red,
          bloom_count = 10, maturityPeriodDays = 26\<rparr> = 7"
proof -
  let ?b = "\<lparr>bloom_id = ''b1'', bloom_date = 1, location = ''N11A'', variety = Red,
              bloom_count = 10, maturityPeriodDays = 26\<rparr>"
  let ?as = "[\<lparr>abortion_id = ''a1'', abortionDate = 5, abortion_bloomEntryId = ''b1'', abortedCount = 3\<rparr>]"
  have out: "loadHarvestData 30 [?b] ?as []
      = [\<lparr>forecast_id = ''b1'', bloomEntry = ?b,
        expectedHarvestDate = 27, expectedCount = 10, totalAborted = 3, remainingCount = 7,
        isReadyToday = False, daysUntilHarvest = - 3\<rparr>]"
    by (simp add: harvest_eval)
  from ledger_remaining_unclamped_positive_in_output [of 30 ?as "[]" ?b "[?b]"] out
  show ?thesis
    by simp
qed

theorem exhausted_bloom_has_no_forecast_witness:
  "bloom_count \<lparr>bloom_id = ''b1'', bloom_date = 1, location = ''N11A'', variety = Red,
                 bloom_count = 10, maturityPeriodDays = 26\<rparr>
     - spec_totalAborted
         [\<lparr>abortion_id = ''a1'', abortionDate = 5, abortion_bloomEntryId = ''b1'', abortedCount = 3\<rparr>]
         \<lparr>bloom_id = ''b1'', bloom_date = 1, location = ''N11A'', variety = Red,
           bloom_count = 10, maturityPeriodDays = 26\<rparr>
     - spec_totalHarvested
         [\<lparr>harvest_id = ''h1'', harvestDate = 27, harvest_bloomEntryId = ''b1'', harvestedCount = 7\<rparr>]
         \<lparr>bloom_id = ''b1'', bloom_date = 1, location = ''N11A'', variety = Red,
           bloom_count = 10, maturityPeriodDays = 26\<rparr> \<le> 0
   \<and> \<lparr>bloom_id = ''b1'', bloom_date = 1, location = ''N11A'', variety = Red,
        bloom_count = 10, maturityPeriodDays = 26\<rparr>
       \<notin> bloomEntry ` set (loadHarvestData 27
            [\<lparr>bloom_id = ''b1'', bloom_date = 1, location = ''N11A'', variety = Red,
               bloom_count = 10, maturityPeriodDays = 26\<rparr>,
             \<lparr>bloom_id = ''b2'', bloom_date = 2, location = ''NT3D'', variety = White,
               bloom_count = 4, maturityPeriodDays = 26\<rparr>]
            [\<lparr>abortion_id = ''a1'', abortionDate = 5, abortion_bloomEntryId = ''b1'', abortedCount = 3\<rparr>]
            [\<lparr>harvest_id = ''h1'', harvestDate = 27, harvest_bloomEntryId = ''b1'', harvestedCount = 7\<rparr>])
   \<and> map forecast_id (loadHarvestData 27
            [\<lparr>bloom_id = ''b1'', bloom_date = 1, location = ''N11A'', variety = Red,
               bloom_count = 10, maturityPeriodDays = 26\<rparr>,
             \<lparr>bloom_id = ''b2'', bloom_date = 2, location = ''NT3D'', variety = White,
               bloom_count = 4, maturityPeriodDays = 26\<rparr>]
            [\<lparr>abortion_id = ''a1'', abortionDate = 5, abortion_bloomEntryId = ''b1'', abortedCount = 3\<rparr>]
            [\<lparr>harvest_id = ''h1'', harvestDate = 27, harvest_bloomEntryId = ''b1'', harvestedCount = 7\<rparr>])
       = [''b2'']"
proof -
  let ?b = "\<lparr>bloom_id = ''b1'', bloom_date = 1, location = ''N11A'', variety = Red,
              bloom_count = 10, maturityPeriodDays = 26\<rparr>"
  let ?b2 = "\<lparr>bloom_id = ''b2'', bloom_date = 2, location = ''NT3D'', variety = White,
               bloom_count = 4, maturityPeriodDays = 26\<rparr>"
  let ?as = "[\<lparr>abortion_id = ''a1'', abortionDate = 5, abortion_bloomEntryId = ''b1'', abortedCount = 3\<rparr>]"
  let ?hs = "[\<lparr>harvest_id = ''h1'', harvestDate = 27, harvest_bloomEntryId = ''b1'', harvestedCount = 7\<rparr>]"
  have hyp: "bloom_count ?b - spec_totalAborted ?as ?b - spec_totalHarvested ?hs ?b \<le> 0"
    by (simp add: spec_totalAborted_def spec_totalHarvested_def)
  have ids: "map forecast_id (loadHarvestData 27 [?b, ?b2] ?as ?hs) = [''b2'']"
    by (simp add: harvest_eval)
  from exhausted_bloom_has_no_forecast [OF hyp, of 27 "[?b, ?b2]"]
  have "?b \<notin> bloomEntry ` set (loadHarvestData 27 [?b, ?b2] ?as ?hs)"
    by (auto simp only: image_iff)
  with hyp ids show ?thesis
    by (intro conjI)
qed

theorem forecasts_ordered_by_policy_witness:
  "map (\<lambda>f. (forecast_id f, isReadyToday f, daysUntilHarvest f))
     (loadHarvestData 30
        [\<lparr>bloom_id = ''b3'', bloom_date = 10, location = ''N11A'', variety = Red,
           bloom_count = 6, maturityPeriodDays = 26\<rparr>,
         \<lparr>bloom_id = ''b1'', bloom_date = 0, location = ''NT3D'', variety = White,
           bloom_count = 4, maturityPeriodDays = 26\<rparr>,
         \<lparr>bloom_id = ''b2'', bloom_date = 4, location = ''NDPU3'', variety = Yellow,
           bloom_count = 9, maturityPeriodDays = 26\<rparr>]
        [] [])
     = [(''b2'', True, 0), (''b1'', False, - 4), (''b3'', False, 6)]
   \<and> sorted_wrt
       (\<lambda>a b. (isReadyToday b \<longrightarrow> isReadyToday a)
             \<and> (isReadyToday a = isReadyToday b \<longrightarrow> daysUntilHarvest a \<le> daysUntilHarvest b))
       (loadHarvestData 30
        [\<lparr>bloom_id = ''b3'', bloom_date = 10, location = ''N11A'', variety = Red,
           bloom_count = 6, maturityPeriodDays = 26\<rparr>,
         \<lparr>bloom_id = ''b1'', bloom_date = 0, location = ''NT3D'', variety = White,
           bloom_count = 4, maturityPeriodDays = 26\<rparr>,
         \<lparr>bloom_id = ''b2'', bloom_date = 4, location = ''NDPU3'', variety = Yellow,
           bloom_count = 9, maturityPeriodDays = 26\<rparr>]
        [] [])"
proof -
  let ?bs = "[\<lparr>bloom_id = ''b3'', bloom_date = 10, location = ''N11A'', variety = Red,
           bloom_count = 6, maturityPeriodDays = 26\<rparr>,
         \<lparr>bloom_id = ''b1'', bloom_date = 0, location = ''NT3D'', variety = White,
           bloom_count = 4, maturityPeriodDays = 26\<rparr>,
         \<lparr>bloom_id = ''b2'', bloom_date = 4, location = ''NDPU3'', variety = Yellow,
           bloom_count = 9, maturityPeriodDays = 26\<rparr>]"
  have "map (\<lambda>f. (forecast_id f, isReadyToday f, daysUntilHarvest f))
          (loadHarvestData 30 ?bs [] [])
        = [(''b2'', True, 0), (''b1'', False, - 4), (''b3'', False, 6)]"
    by (simp add: harvest_eval)
  with forecasts_ordered_by_policy [of 30 ?bs "[]" "[]"] show ?thesis
    by blast
qed

section \<open>The dashboard\<close>

text \<open>
  The third call of \<^verbatim>\<open>loadDashboardData\<close> names a function that the module does not
  import, so every run ends in the \<^verbatim>\<open>catch\<close> and the state is the one before the call.
\<close>

lemma getHarvestEntries_not_imported:
  "callImported indexImports ''getHarvestEntries'' result =
     Inl (ReferenceError ''getHarvestEntries'')"
  by (simp add: callImported_def indexImports_def)

lemma loadDashboardData_keeps_state:
  "loadDashboardData today storedBlooms storedAbortions storedHarvests stats = stats"
  by (simp add: loadDashboardData_def getHarvestEntries_not_imported split: sum.splits)

text \<open>
  Claim C2 at a concrete history: one bloom of 10 flowers, nothing aborted and nothing
  harvested. The sum of the specification's remaining counts is 10; the dashboard's
  \<open>totalActiveBlooms\<close> after the load is still the initial 0.
\<close>

theorem dashboard_totalActiveBlooms_stays_zero:
  "totalActiveBlooms
     (loadDashboardData 30
        [\<lparr>bloom_id = ''b1'', bloom_date = 20, location = ''N11A'', variety = Red,
           bloom_count = 10, maturityPeriodDays = 26\<rparr>]
        [] [] initialStats) = 0
   \<and> (\<Sum>b \<leftarrow> [\<lparr>bloom_id = ''b1'', bloom_date = 20, location = ''N11A'', variety = Red,
                  bloom_count = 10, maturityPeriodDays = 26\<rparr>].
        spec_remaining [] [] b) = 10"
  by (simp add: loadDashboardData_keeps_state initialStats_def
      spec_remaining_def spec_totalAborted_def spec_totalHarvested_def)

text \<open>
  Claim C8 at a concrete history: one bloom whose bloom date plus maturity period is
  today. One bloom is due today; the dashboard's \<open>readyToHarvestToday\<close> after the load
  is still undefined.
\<close>

theorem dashboard_readyToHarvestToday_stays_undefined:
  "readyToHarvestToday
     (loadDashboardData 27
        [\<lparr>bloom_id = ''b1'', bloom_date = 1, location = ''N11A'', variety = Red,
           bloom_count = 10, maturityPeriodDays = 26\<rparr>]
        [] [] initialStats) = None
   \<and> length (filter (\<lambda>b. addDays (bloom_date b) (maturityPeriodDays b) = 27)
        [\<lparr>bloom_id = ''b1'', bloom_date = 1, location = ''N11A'', variety = Red,
           bloom_count = 10, maturityPeriodDays = 26\<rparr>]) = 1"
  by (simp add: loadDashboardData_keeps_state initialStats_def addDays_def)

section \<open>The entry workflows\<close>

text \<open>
  Claim C3 at a concrete history: a bloom of 10 flowers with 7 fruit already
  harvested has 3 remaining. The abortion page computes a remaining count of 10 for it
  and saves an abortion of 5; the harvest page, on the same history, rejects a harvest
  of 5.
\<close>

theorem abortion_exceeding_remaining_is_saved:
  "spec_remaining []
     [\<lparr>harvest_id = ''h1'', harvestDate = 27, harvest_bloomEntryId = ''b1'', harvestedCount = 7\<rparr>]
     \<lparr>bloom_id = ''b1'', bloom_date = 1, location = ''N11A'', variety = Red,
       bloom_count = 10, maturityPeriodDays = 26\<rparr> = 3
   \<and> loadBloomEntries
        [\<lparr>bloom_id = ''b1'', bloom_date = 1, location = ''N11A'', variety = Red,
           bloom_count = 10, maturityPeriodDays = 26\<rparr>] []
      = [\<lparr>selected_bloom = \<lparr>bloom_id = ''b1'', bloom_date = 1, location = ''N11A'',
                               variety = Red, bloom_count = 10, maturityPeriodDays = 26\<rparr>,
           selected_remainingCount = 10\<rparr>]
   \<and> handleSave
        (Some \<lparr>selected_bloom = \<lparr>bloom_id = ''b1'', bloom_date = 1, location = ''N11A'',
                                  variety = Red, bloom_count = 10, maturityPeriodDays = 26\<rparr>,
               selected_remainingCount = 10\<rparr>)
        (Some 5) ''a1'' 28 []
      = Inr [\<lparr>abortion_id = ''a1'', abortionDate = 28, abortion_bloomEntryId = ''b1'',
               abortedCount = 5\<rparr>]
   \<and> handleSaveHarvest
        (loadHarvestData 28
           [\<lparr>bloom_id = ''b1'', bloom_date = 1, location = ''N11A'', variety = Red,
              bloom_count = 10, maturityPeriodDays = 26\<rparr>]
           []
           [\<lparr>harvest_id = ''h1'', harvestDate = 27, harvest_bloomEntryId = ''b1'', harvestedCount = 7\<rparr>])
        (Some \<lparr>bloom_id = ''b1'', bloom_date = 1, location = ''N11A'', variety = Red,
                bloom_count = 10, maturityPeriodDays = 26\<rparr>)
        (Some 5) ''h2'' 28
        [\<lparr>harvest_id = ''h1'', harvestDate = 27, harvest_bloomEntryId = ''b1'', harvestedCount = 7\<rparr>]
      = Inl (ExceedsRemaining 3)"
  by (simp add: harvest_eval loadBloomEntries_def handleSave_def handleSaveHarvest_def
      saveAbortionEntry_def saveHarvestEntry_def)

section \<open>The abortion analytics\<close>

lemma map_of_mapSet: "map_of (mapSet k v m) = (map_of m)(k \<mapsto> v)"
  by (induction m) (auto simp: fun_eq_iff)

lemma keys_mapSet: "fst ` set (mapSet k v m) = insert k (fst ` set m)"
  by (induction m) auto

lemma distinct_mapSet: "distinct (map fst m) \<Longrightarrow> distinct (map fst (mapSet k v m))"
proof (induction m)
  case Nil
  then show ?case by simp
next
  case (Cons p ps)
  have "fst ` set (mapSet k v ps) = insert k (fst ` set ps)"
    by (rule keys_mapSet)
  with Cons show ?case by auto
qed

lemma groupsOf_addBloom:
  assumes "groupsOf key allBlooms blooms [] m"
  shows "groupsOf key allBlooms (blooms @ [b]) [] (addBloom key m b)"
proof -
  from assms have d: "distinct (map fst m)" and ks: "fst ` set m = key ` set blooms"
    and v: "\<And>k. k \<in> key ` set blooms \<Longrightarrow>
        map_of m k = Some \<lparr> stats_total = groupTotal key blooms k, stats_aborted = 0 \<rparr>"
    by (auto simp: groupsOf_def groupAborted_def)
  have cur: "currentStats m (key b) = \<lparr> stats_total = groupTotal key blooms (key b), stats_aborted = 0 \<rparr>"
  proof (cases "key b \<in> key ` set blooms")
    case True
    then show ?thesis by (simp add: currentStats_def mapGet_def v)
  next
    case False
    then have "map_of m (key b) = None"
      using ks by (simp add: map_of_eq_None_iff)
    moreover have "\<forall>b' \<in> set blooms. key b' \<noteq> key b"
      using False by (metis imageI)
    then have "filter (\<lambda>b'. key b' = key b) blooms = []"
      by (simp add: filter_empty_conv)
    ultimately show ?thesis
      by (simp add: currentStats_def mapGet_def groupTotal_def)
  qed
  show ?thesis
    unfolding groupsOf_def
  proof (intro conjI ballI)
    show "distinct (map fst (addBloom key m b))"
      by (simp add: addBloom_def Let_def distinct_mapSet d)
    show "fst ` set (addBloom key m b) = key ` set (blooms @ [b])"
      by (auto simp: addBloom_def Let_def keys_mapSet ks)
    fix k assume "k \<in> key ` set (blooms @ [b])"
    then have "k = key b \<or> (k \<noteq> key b \<and> k \<in> key ` set blooms)"
      by auto
    then show "map_of (addBloom key m b) k =
        Some \<lparr> stats_total = groupTotal key (blooms @ [b]) k,
               stats_aborted = groupAborted key allBlooms [] k \<rparr>"
    proof
      assume "k = key b"
      then show ?thesis
        by (simp add: addBloom_def Let_def map_of_mapSet cur groupTotal_def groupAborted_def)
    next
      assume "k \<noteq> key b \<and> k \<in> key ` set blooms"
      then have "k \<noteq> key b" and "k \<in> key ` set blooms"
        by simp_all
      then show ?thesis
        by (auto simp: addBloom_def Let_def map_of_mapSet v groupTotal_def groupAborted_def)
    qed
  qed
qed

lemma groupsOf_blooms: "groupsOf key allBlooms blooms [] (foldl (addBloom key) [] blooms)"
proof (induction blooms rule: rev_induct)
  case Nil
  then show ?case by (simp add: groupsOf_def)
next
  case (snoc b blooms)
  then show ?case by (simp add: groupsOf_addBloom)
qed

lemma abortionKey_in_keys:
  "abortionKey key blooms a = Some k \<Longrightarrow> k \<in> key ` set blooms"
  by (auto simp: abortionKey_def find_Some_iff)

lemma groupsOf_addAbortion:
  assumes "groupsOf key blooms blooms abortions m"
  shows "groupsOf key blooms blooms (abortions @ [a]) (addAbortion key blooms m a)"
proof (cases "find (\<lambda>b. bloom_id b = abortion_bloomEntryId a) blooms")
  case None
  then have am: "addAbortion key blooms m a = m"
    by (simp add: addAbortion_def)
  from None have ga: "groupAborted key blooms (abortions @ [a]) = groupAborted key blooms abortions"
    by (simp add: fun_eq_iff groupAborted_def abortionKey_def)
  from assms have "groupsOf key blooms blooms (abortions @ [a]) m"
    unfolding groupsOf_def ga .
  then show ?thesis
    by (simp only: am)
next
  case (Some bloom)
  then have ak: "abortionKey key blooms a = Some (key bloom)"
    by (simp add: abortionKey_def)
  then have kin: "key bloom \<in> key ` set blooms"
    by (rule abortionKey_in_keys)
  from assms have d: "distinct (map fst m)" and ks: "fst ` set m = key ` set blooms"
    and v: "\<And>k. k \<in> key ` set blooms \<Longrightarrow>
        map_of m k = Some \<lparr> stats_total = groupTotal key blooms k,
                            stats_aborted = groupAborted key blooms abortions k \<rparr>"
    by (auto simp: groupsOf_def)
  have step: "addAbortion key blooms m a =
      mapSet (key bloom)
        \<lparr> stats_total = groupTotal key blooms (key bloom),
          stats_aborted = groupAborted key blooms abortions (key bloom) + abortedCount a \<rparr> m"
    by (simp add: addAbortion_def Some Let_def currentStats_def mapGet_def v [OF kin])
  show ?thesis
    unfolding groupsOf_def
  proof (intro conjI ballI)
    show "distinct (map fst (addAbortion key blooms m a))"
      by (simp add: step distinct_mapSet d)
    show "fst ` set (addAbortion key blooms m a) = key ` set blooms"
      using kin by (auto simp: step keys_mapSet ks)
    fix k assume k: "k \<in> key ` set blooms"
    show "map_of (addAbortion key blooms m a) k =
        Some \<lparr> stats_total = groupTotal key blooms k,
               stats_aborted = groupAborted key blooms (abortions @ [a]) k \<rparr>"
      using k by (simp add: step map_of_mapSet v groupAborted_def ak)
  qed
qed

lemma groupsOf_groupStats: "groupsOf key blooms blooms abortions (groupStats key blooms abortions)"
proof (induction abortions rule: rev_induct)
  case Nil
  then show ?case by (simp add: groupStats_def groupsOf_blooms)
next
  case (snoc a abortions)
  then show ?case
    using groupsOf_addAbortion [of key blooms abortions "groupStats key blooms abortions" a]
    by (simp add: groupStats_def)
qed

lemma groupStats_iff:
  "(k, s) \<in> set (groupStats key blooms abortions) \<longleftrightarrow>
     k \<in> key ` set blooms
     \<and> s = \<lparr> stats_total = groupTotal key blooms k,
             stats_aborted = groupAborted key blooms abortions k \<rparr>"
proof -
  let ?m = "groupStats key blooms abortions"
  have g: "groupsOf key blooms blooms abortions ?m"
    by (rule groupsOf_groupStats)
  then have d: "distinct (map fst ?m)" and ks: "fst ` set ?m = key ` set blooms"
    by (simp_all add: groupsOf_def)
  have "(k, s) \<in> set ?m \<longleftrightarrow> map_of ?m k = Some s"
    using d by simp
  also have "\<dots> \<longleftrightarrow> k \<in> key ` set blooms
     \<and> s = \<lparr> stats_total = groupTotal key blooms k,
             stats_aborted = groupAborted key blooms abortions k \<rparr>"
  proof (cases "k \<in> key ` set blooms")
    case True
    with g show ?thesis by (auto simp: groupsOf_def)
  next
    case False
    then have "map_of ?m k = None"
      using ks by (simp add: map_of_eq_None_iff)
    with False show ?thesis by simp
  qed
  finally show ?thesis .
qed


lemma addAbortion_orphan:
  assumes "abortion_bloomEntryId a \<notin> bloom_id ` set blooms"
  shows "addAbortion key blooms m a = m"
proof -
  have "\<not> (\<exists>b. b \<in> set blooms \<and> bloom_id b = abortion_bloomEntryId a)"
    using assms by (metis imageI)
  then have "find (\<lambda>b. bloom_id b = abortion_bloomEntryId a) blooms = None"
    by (simp add: find_None_iff)
  then show ?thesis
    by (simp add: addAbortion_def)
qed

lemma groupStats_orphan:
  assumes "abortion_bloomEntryId a \<notin> bloom_id ` set blooms"
  shows "groupStats key blooms (before @ a # after) = groupStats key blooms (before @ after)"
  by (simp add: groupStats_def addAbortion_orphan [OF assms])

text \<open>
  Claim C9. An abortion entry whose \<open>bloomEntryId\<close> is the identifier of no bloom leaves
  both statistics maps as they are, wherever it stands in the abortion collection: the
  maps, and with them both rate lists, are those computed without the entry. The
  aggregations are total functions; the miss of \<^verbatim>\<open>find\<close> takes the branch that skips
  the entry.
\<close>

theorem orphaned_abortion_is_ignored:
  assumes "abortion_bloomEntryId a \<notin> bloom_id ` set blooms"
  shows "locationStats blooms (before @ a # after) = locationStats blooms (before @ after)
       \<and> varietyStats blooms (before @ a # after) = varietyStats blooms (before @ after)
       \<and> locationRates blooms (before @ a # after) = locationRates blooms (before @ after)
       \<and> varietyRates blooms (before @ a # after) = varietyRates blooms (before @ after)"
  by (simp add: locationRates_def varietyRates_def locationStats_def varietyStats_def
      groupStats_orphan [OF assms])

lemmas analytics_eval =
  locationRates_def varietyRates_def locationStats_def varietyStats_def groupStats_def
  addBloom_def addAbortion_def currentStats_def mapGet_def abortionRate_def arraySort_def Let_def
  groupTotal_def groupAborted_def abortionKey_def

theorem orphaned_abortion_is_ignored_witness:
  "locationRates
     [\<lparr>bloom_id = ''b1'', bloom_date = 1, location = ''N11A'', variety = Red,
        bloom_count = 10, maturityPeriodDays = 26\<rparr>]
     ([\<lparr>abortion_id = ''a1'', abortionDate = 5, abortion_bloomEntryId = ''b1'', abortedCount = 3\<rparr>]
      @ \<lparr>abortion_id = ''a2'', abortionDate = 6, abortion_bloomEntryId = ''zz'', abortedCount = 4\<rparr>
      # [])
   = [\<lparr>rate_location = ''N11A'', rate = 30, rate_total = 10, rate_aborted = 3\<rparr>]
   \<and> varietyRates
     [\<lparr>bloom_id = ''b1'', bloom_date = 1, location = ''N11A'', variety = Red,
        bloom_count = 10, maturityPeriodDays = 26\<rparr>]
     ([\<lparr>abortion_id = ''a1'', abortionDate = 5, abortion_bloomEntryId = ''b1'', abortedCount = 3\<rparr>]
      @ \<lparr>abortion_id = ''a2'', abortionDate = 6, abortion_bloomEntryId = ''zz'', abortedCount = 4\<rparr>
      # [])
   = [\<lparr>chart_x = Red, chart_y = 30\<rparr>]"
proof -
  let ?bs = "[\<lparr>bloom_id = ''b1'', bloom_date = 1, location = ''N11A'', variety = Red,
        bloom_count = 10, maturityPeriodDays = 26\<rparr>]"
  let ?a1 = "\<lparr>abortion_id = ''a1'', abortionDate = 5, abortion_bloomEntryId = ''b1'', abortedCount = 3\<rparr>"
  let ?a2 = "\<lparr>abortion_id = ''a2'', abortionDate = 6, abortion_bloomEntryId = ''zz'', abortedCount = 4\<rparr>"
  have hyp: "abortion_bloomEntryId ?a2 \<notin> bloom_id ` set ?bs"
    by simp
  have l: "locationRates ?bs ([?a1] @ []) =
      [\<lparr>rate_location = ''N11A'', rate = 30, rate_total = 10, rate_aborted = 3\<rparr>]"
    by (simp add: analytics_eval)
  have v: "varietyRates ?bs ([?a1] @ []) = [\<lparr>chart_x = Red, chart_y = 30\<rparr>]"
    by (simp add: analytics_eval)
  note t = orphaned_abortion_is_ignored [OF hyp, of "[?a1]" "[]"]
  from t l v show ?thesis
    by (simp only:)
qed

lemma groupAborted_nonneg:
  assumes "\<forall>a \<in> set abortions. 0 \<le> abortedCount a"
  shows "0 \<le> groupAborted key blooms abortions k"
  unfolding groupAborted_def using assms by (intro sum_list_nonneg) auto

lemma abortionRate_zero_total: "stats_total s \<le> 0 \<Longrightarrow> abortionRate s = 0"
  by (simp add: abortionRate_def)

lemma abortionRate_nonneg: "0 \<le> stats_aborted s \<Longrightarrow> 0 \<le> abortionRate s"
  by (simp add: abortionRate_def)

lemma abortionRate_le_100:
  assumes "stats_aborted s \<le> stats_total s"
  shows "abortionRate s \<le> 100"
proof (cases "stats_total s > 0")
  case True
  define q :: rat where "q = of_int (stats_aborted s) / of_int (stats_total s)"
  have "q \<le> 1"
    unfolding q_def using True assms by (simp add: divide_le_eq_1_pos)
  then have "q * 100 \<le> 100"
    by simp
  moreover have "abortionRate s = q * 100"
    using True by (simp only: abortionRate_def q_def if_True)
  ultimately show ?thesis
    by simp
next
  case False
  then show ?thesis by (simp add: abortionRate_def)
qed

text \<open>
  Claim C5, as amended. For abortion entries with non-negative counts, the rate of
  every group of either aggregation (\<open>key\<close> is \<open>location\<close> or \<open>variety\<close>) is at least
  0, is 0 when the group's total is 0, and is at most 100 when the group's aborted count
  does not exceed its total. No bound holds under over-abortion.
\<close>

theorem group_rate_bounds:
  assumes "\<forall>a \<in> set abortions. 0 \<le> abortedCount a"
    and "(k, s) \<in> set (groupStats key blooms abortions)"
  shows "0 \<le> abortionRate s
       \<and> (stats_total s = 0 \<longrightarrow> abortionRate s = 0)
       \<and> (stats_aborted s \<le> stats_total s \<longrightarrow> abortionRate s \<le> 100)"
proof -
  from assms(2) have "stats_aborted s = groupAborted key blooms abortions k"
    by (simp add: groupStats_iff)
  with assms(1) have "0 \<le> stats_aborted s"
    by (simp add: groupAborted_nonneg)
  then show ?thesis
    by (simp add: abortionRate_nonneg abortionRate_zero_total abortionRate_le_100)
qed

theorem rate_exceeds_100_counterexample:
  "locationRates
     [\<lparr>bloom_id = ''b1'', bloom_date = 1, location = ''N11A'', variety = Red,
        bloom_count = 5, maturityPeriodDays = 26\<rparr>]
     [\<lparr>abortion_id = ''a1'', abortionDate = 5, abortion_bloomEntryId = ''b1'', abortedCount = 7\<rparr>]
   = [\<lparr>rate_location = ''N11A'', rate = 140, rate_total = 5, rate_aborted = 7\<rparr>]
   \<and> varietyRates
     [\<lparr>bloom_id = ''b1'', bloom_date = 1, location = ''N11A'', variety = Red,
        bloom_count = 5, maturityPeriodDays = 26\<rparr>]
     [\<lparr>abortion_id = ''a1'', abortionDate = 5, abortion_bloomEntryId = ''b1'', abortedCount = 7\<rparr>]
   = [\<lparr>chart_x = Red, chart_y = 140\<rparr>]
   \<and> (140 :: rat) > 100"
  by (simp add: analytics_eval)

theorem group_rate_bounds_witness:
  "(''N11A'', \<lparr>stats_total = 10, stats_aborted = 3\<rparr>)
     \<in> set (groupStats location
          [\<lparr>bloom_id = ''b1'', bloom_date = 1, location = ''N11A'', variety = Red,
             bloom_count = 10, maturityPeriodDays = 26\<rparr>]
          [\<lparr>abortion_id = ''a1'', abortionDate = 5, abortion_bloomEntryId = ''b1'', abortedCount = 3\<rparr>])
   \<and> abortionRate \<lparr>stats_total = 10, stats_aborted = 3\<rparr> = 30
   \<and> 0 \<le> abortionRate \<lparr>stats_total = 10, stats_aborted = 3\<rparr>
   \<and> abortionRate \<lparr>stats_total = 10, stats_aborted = 3\<rparr> \<le> 100"
proof -
  let ?bs = "[\<lparr>bloom_id = ''b1'', bloom_date = 1, location = ''N11A'', variety = Red,
             bloom_count = 10, maturityPeriodDays = 26\<rparr>]"
  let ?as = "[\<lparr>abortion_id = ''a1'', abortionDate = 5, abortion_bloomEntryId = ''b1'', abortedCount = 3\<rparr>]"
  let ?s = "\<lparr>stats_total = 10, stats_aborted = 3\<rparr>"
  have h1: "\<forall>a \<in> set ?as. 0 \<le> abortedCount a"
    by simp
  have h2: "(''N11A'', ?s) \<in> set (groupStats location ?bs ?as)"
    by (simp add: analytics_eval)
  have h3: "stats_aborted ?s \<le> stats_total ?s"
    by simp
  have v: "abortionRate ?s = 30"
    by (simp add: abortionRate_def)
  note t = group_rate_bounds [OF h1 h2]
  from t have "0 \<le> abortionRate ?s"
    by (rule conjunct1)
  moreover have "abortionRate ?s \<le> 100"
    by (rule t [THEN conjunct2, THEN conjunct2, THEN mp, OF h3])
  ultimately show ?thesis
    using h2 v by (intro conjI)
qed

subsection \<open>Ranking by rate and truncation\<close>






subsection \<open>The rows of the two views\<close>









end
